theory Spec2Isabelle
  imports Main "HOL-Library.Word" "HOL-Library.Signed_Division"
begin

section \<open>Resource bin-packing priorities of the scheduler\<close>

text \<open>
  Two priority map functions are embedded here:
  \<^item> \<open>ResourceBinPackingPriorityMap\<close> with its helper \<open>calculateScareResourceScore\<close>
    (the generic scorer, package \<open>priorities\<close>, type \<open>ResourceBinPacking\<close>);
  \<^item> \<open>ScarceResourceBinPackingPriorityMap\<close> with its own helper of the same name
    (file \<open>scarce_resource_bin_packing.go\<close>), here \<open>calculateScareResourceScore_scarce\<close>.
  Both files declare one more helper, \<open>podRequestsResource\<close>, with the same body (the
  resource name is a \<open>v1.ResourceName\<close> in one and a \<open>string\<close> in the other); it is
  embedded once.

  Go's \<open>int64\<close> is a 64-bit word: \<open>+\<close> and \<open>*\<close> wrap around, comparisons read the word
  as two's complement (\<open>sint\<close>), \<open>/\<close> truncates towards zero and panics on a zero
  divisor. Go's \<open>int\<close> is taken at its 64-bit width (the scheduler's platforms), so the
  conversions \<open>int(...)\<close> of the source are the identity.
\<close>

subsection \<open>Data\<close>

type_synonym int64 = "64 word"

text \<open>
  Modelled from the spec: \<open>resource.Quantity\<close> (package \<open>k8s.io/apimachinery\<close>) is not
  among the sources. The scorers only call its accessors \<open>Value()\<close> and \<open>MilliValue()\<close>;
  a quantity is represented by what these two calls return. The quantity parsed from a
  whole number \<open>n\<close> has \<open>Value = n\<close> and \<open>MilliValue = 1000 * n\<close>.
\<close>

record Quantity =
  Value :: int64
  MilliValue :: int64

definition whole :: "int64 \<Rightarrow> Quantity" where
  "whole n = \<lparr>Value = n, MilliValue = 1000 * n\<rparr>"

type_synonym ResourceName = string

type_synonym ResourceList = "ResourceName \<rightharpoonup> Quantity"

record ResourceRequirements =
  Limits :: ResourceList
  Requests :: ResourceList

record Container =
  Resources :: ResourceRequirements

record PodSpec =
  InitContainers :: "Container list"
  Containers :: "Container list"

record Pod =
  Spec :: PodSpec

record Node =
  Name :: string

text \<open>
  Modelled from the spec: \<open>schedulercache.Resource\<close> and \<open>schedulercache.NodeInfo\<close> are
  declared outside the sources. \<open>Resource\<close> carries the three built-in totals and the
  map of scalar (extended) resources; a \<open>NodeInfo\<close> is represented by what its accessors
  \<open>Node()\<close> (a pointer, \<open>None\<close> for \<open>nil\<close>), \<open>Pods()\<close>, \<open>RequestedResource()\<close> and
  \<open>AllocatableResource()\<close> return.
\<close>

record Resource =
  MilliCPU :: int64
  Memory :: int64
  EphemeralStorage :: int64
  ScalarResources :: "ResourceName \<rightharpoonup> int64"

record NodeInfo =
  Node :: "Node option"
  Pods :: "Pod list"
  RequestedResource :: Resource
  AllocatableResource :: Resource

record HostPriority =
  Host :: string
  Score :: int64

text \<open>The zero value \<open>schedulerapi.HostPriority{}\<close> returned beside an error.\<close>

definition emptyHostPriority :: HostPriority where
  "emptyHostPriority = \<lparr>Host = [], Score = 0\<rparr>"

text \<open>Modelled from the spec: the constant \<open>schedulerapi.MaxPriority\<close>, which is 10.\<close>

definition MaxPriority :: int64 where
  "MaxPriority = 10"

subsection \<open>Go primitives\<close>

text \<open>Indexing a Go map: a missing key gives the zero value.\<close>

definition mapIndex :: "(ResourceName \<rightharpoonup> int64) \<Rightarrow> ResourceName \<Rightarrow> int64" where
  "mapIndex m k = (case m k of None \<Rightarrow> 0 | Some v \<Rightarrow> v)"

datatype panic = IntegerDivideByZero

text \<open>
  Integer division of Go: a run-time panic on a zero divisor, otherwise the quotient
  truncated towards zero, wrapped to 64 bits (the one overflow is \<open>MinInt64 / -1\<close>).
\<close>

definition truncQuot :: "int64 \<Rightarrow> int64 \<Rightarrow> int64" where
  "truncQuot a b = word_of_int (sint a sdiv sint b)"

definition goDiv :: "int64 \<Rightarrow> int64 \<Rightarrow> panic + int64" where
  "goDiv a b = (if b = 0 then Inl IntegerDivideByZero else Inr (truncQuot a b))"

text \<open>
  The statement both helpers end with,
  \<open>return ((usedResource + reqResource) * schedulerapi.MaxPriority) / available\<close>,
  as a function of the three local variables.
\<close>

definition scoreOf :: "int64 \<Rightarrow> int64 \<Rightarrow> int64 \<Rightarrow> panic + int64" where
  "scoreOf usedResource reqResource available =
     goDiv ((usedResource + reqResource) * MaxPriority) available"

subsection \<open>The shared helper \<open>podRequestsResource\<close>\<close>

text \<open>
  The closure \<open>containerRequestsResource\<close>: the two \<open>range\<close> loops look for the entry of
  the map whose key is the resource; a Go map has at most one.
\<close>

definition containerRequestsResource :: "ResourceName \<Rightarrow> Container \<Rightarrow> bool" where
  "containerRequestsResource resource container =
     (if (case Requests (Resources container) resource of
            None \<Rightarrow> False | Some quantity \<Rightarrow> 0 < sint (MilliValue quantity))
      then True
      else if (case Limits (Resources container) resource of
            None \<Rightarrow> False | Some quantity \<Rightarrow> 0 < sint (MilliValue quantity))
      then True
      else False)"

text \<open>The loop \<open>for _, c := range cs { if containerRequestsResource(c) { return true } }\<close>.\<close>

fun someContainerRequests :: "ResourceName \<Rightarrow> Container list \<Rightarrow> bool" where
  "someContainerRequests resource [] = False"
| "someContainerRequests resource (c # cs) =
     (if containerRequestsResource resource c then True
      else someContainerRequests resource cs)"

definition podRequestsResource :: "Pod \<Rightarrow> ResourceName \<Rightarrow> bool" where
  "podRequestsResource pod resource =
     (if someContainerRequests resource (InitContainers (Spec pod)) then True
      else if someContainerRequests resource (Containers (Spec pod)) then True
      else False)"

subsection \<open>Summing requests\<close>

text \<open>
  The loop
  \<^verbatim>\<open>for _, container := range containers {
    if qunatity, ok := container.Resources.Requests[resource]; ok { acc += qunatity.Value() } }\<close>
  with the running total \<open>acc\<close>. Both scorers use it.
\<close>

fun sumRequests :: "ResourceName \<Rightarrow> Container list \<Rightarrow> int64 \<Rightarrow> int64" where
  "sumRequests resource [] acc = acc"
| "sumRequests resource (container # containers) acc =
     sumRequests resource containers
       (case Requests (Resources container) resource of
          None \<Rightarrow> acc | Some qunatity \<Rightarrow> acc + Value qunatity)"

text \<open>The outer loop of the scarce scorer over the pods bound to the node.\<close>

fun sumPodsRequests :: "ResourceName \<Rightarrow> Pod list \<Rightarrow> int64 \<Rightarrow> int64" where
  "sumPodsRequests resource [] acc = acc"
| "sumPodsRequests resource (pod # pods) acc =
     sumPodsRequests resource pods (sumRequests resource (Containers (Spec pod)) acc)"

subsection \<open>The generic scorer\<close>

text \<open>The value of \<open>usedResource\<close> after the chain of comparisons on the resource name.\<close>

definition usedResource :: "NodeInfo \<Rightarrow> ResourceName \<Rightarrow> int64" where
  "usedResource nodeInfo resource =
     (if resource = ''cpu'' then MilliCPU (RequestedResource nodeInfo)
      else if resource = ''storage'' then Memory (RequestedResource nodeInfo)
      else if resource = ''ephemeral-storage'' then EphemeralStorage (RequestedResource nodeInfo)
      else mapIndex (ScalarResources (RequestedResource nodeInfo)) resource)"

text \<open>
  The value of \<open>reqResource\<close> after the two loops and the comparison
  \<open>if reqResourceInit > reqResource { reqResource = reqResourceInit }\<close>.
\<close>

definition reqResource :: "Pod \<Rightarrow> ResourceName \<Rightarrow> int64" where
  "reqResource pod resource =
     (let reqResource = sumRequests resource (Containers (Spec pod)) 0;
          reqResourceInit = sumRequests resource (InitContainers (Spec pod)) 0
      in if sint reqResource < sint reqResourceInit then reqResourceInit else reqResource)"

definition calculateScareResourceScore :: "NodeInfo \<Rightarrow> Pod \<Rightarrow> ResourceName \<Rightarrow> panic + int64" where
  "calculateScareResourceScore nodeInfo pod resource =
     (let usedResource = usedResource nodeInfo resource;
          reqResource = reqResource pod resource;
          available = mapIndex (ScalarResources (AllocatableResource nodeInfo)) resource
      in scoreOf usedResource reqResource available)"

text \<open>
  The method of \<open>ResourceBinPacking\<close>; its first argument is the receiver's field
  \<open>resource\<close>. The result is the pair of the Go function, or the panic that ends it.
\<close>

definition ResourceBinPackingPriorityMap ::
  "ResourceName \<Rightarrow> Pod \<Rightarrow> NodeInfo \<Rightarrow> panic + (HostPriority \<times> string option)" where
  "ResourceBinPackingPriorityMap resource pod nodeInfo =
     (if length resource = 0 then Inr (emptyHostPriority, Some ''resource not defined'')
      else case Node nodeInfo of
        None \<Rightarrow> Inr (emptyHostPriority, Some ''node not found'')
      | Some node \<Rightarrow>
          if \<not> podRequestsResource pod resource
          then Inr (\<lparr>Host = Name node, Score = 0\<rparr>, None)
          else (case calculateScareResourceScore nodeInfo pod resource of
                  Inl p \<Rightarrow> Inl p
                | Inr score \<Rightarrow> Inr (\<lparr>Host = Name node, Score = score\<rparr>, None)))"

subsection \<open>The scarce-resource scorer\<close>

text \<open>
  The value of \<open>reqResource\<close> after the first loop of the scarce helper: the requests
  of the containers it is given (the caller passes \<open>pod.Spec.Containers\<close>).
\<close>

definition reqResource_scarce :: "Container list \<Rightarrow> ResourceName \<Rightarrow> int64" where
  "reqResource_scarce containers resource = sumRequests resource containers 0"

text \<open>The value of \<open>usedResource\<close> after the nested loop over \<open>nodeInfo.Pods()\<close>.\<close>

definition usedResource_scarce :: "NodeInfo \<Rightarrow> ResourceName \<Rightarrow> int64" where
  "usedResource_scarce nodeInfo resource = sumPodsRequests resource (Pods nodeInfo) 0"

definition calculateScareResourceScore_scarce ::
  "NodeInfo \<Rightarrow> Container list \<Rightarrow> ResourceName \<Rightarrow> panic + int64" where
  "calculateScareResourceScore_scarce nodeInfo containers resource =
     (let reqResource = reqResource_scarce containers resource;
          usedResource = usedResource_scarce nodeInfo resource;
          available = mapIndex (ScalarResources (AllocatableResource nodeInfo)) resource
      in scoreOf usedResource reqResource available)"

definition ScarceResourceBinPackingPriorityMap ::
  "ResourceName \<Rightarrow> Pod \<Rightarrow> NodeInfo \<Rightarrow> panic + (HostPriority \<times> string option)" where
  "ScarceResourceBinPackingPriorityMap scarceResource pod nodeInfo =
     (case Node nodeInfo of
        None \<Rightarrow> Inr (emptyHostPriority, Some ''node not found'')
      | Some node \<Rightarrow>
          if \<not> podRequestsResource pod scarceResource
          then Inr (\<lparr>Host = Name node, Score = 0\<rparr>, None)
          else (case calculateScareResourceScore_scarce nodeInfo (Containers (Spec pod)) scarceResource of
                  Inl p \<Rightarrow> Inl p
                | Inr score \<Rightarrow> Inr (\<lparr>Host = Name node, Score = score\<rparr>, None)))"

subsection \<open>The specification's vocabulary\<close>

text \<open>
  The request of one container for a resource, 0 when it declares none, and the
  allocatable quantity the scorers divide by.
\<close>

definition requestValue :: "ResourceName \<Rightarrow> Container \<Rightarrow> int64" where
  "requestValue resource container =
     (case Requests (Resources container) resource of None \<Rightarrow> 0 | Some q \<Rightarrow> Value q)"

definition allocatable :: "NodeInfo \<Rightarrow> ResourceName \<Rightarrow> int64" where
  "allocatable nodeInfo resource = mapIndex (ScalarResources (AllocatableResource nodeInfo)) resource"

text \<open>
  A container declares the resource when its request or its limit for it is greater
  than zero in milli-units.
\<close>

definition declares :: "Container \<Rightarrow> ResourceName \<Rightarrow> bool" where
  "declares container resource =
     ((case Requests (Resources container) resource of
         None \<Rightarrow> False | Some q \<Rightarrow> 0 < sint (MilliValue q)) \<or>
      (case Limits (Resources container) resource of
         None \<Rightarrow> False | Some q \<Rightarrow> 0 < sint (MilliValue q)))"

text \<open>The larger of two signed 64-bit values.\<close>

definition smax :: "int64 \<Rightarrow> int64 \<Rightarrow> int64" where
  "smax a b = (if sint a < sint b then b else a)"

text \<open>
  \<open>EffectiveDemand\<close> in the specification's words, not the source's: \<open>S\<close> is the sum
  of the requests of the regular containers, \<open>I\<close> the largest single request of an init
  container (zero if none requests the resource), and the demand is the larger of both.
\<close>

fun maxRequest :: "ResourceName \<Rightarrow> Container list \<Rightarrow> int64" where
  "maxRequest resource [] = 0"
| "maxRequest resource (container # containers) =
     (case Requests (Resources container) resource of
        None \<Rightarrow> maxRequest resource containers
      | Some q \<Rightarrow> smax (Value q) (maxRequest resource containers))"

definition EffectiveDemand_spec :: "Pod \<Rightarrow> ResourceName \<Rightarrow> int64" where
  "EffectiveDemand_spec pod resource =
     smax (sum_list (map (requestValue resource) (Containers (Spec pod))))
          (maxRequest resource (InitContainers (Spec pod)))"

text \<open>
  The score in the integers: the floor of \<open>(used + demand) * MaxPriority / available\<close>,
  and the range of a signed 64-bit integer.
\<close>

definition scoreFormula :: "int \<Rightarrow> int \<Rightarrow> int \<Rightarrow> int" where
  "scoreFormula used demand available = ((used + demand) * 10) div available"

definition inInt64 :: "int \<Rightarrow> bool" where
  "inInt64 k = (- (2 ^ 63) \<le> k \<and> k < 2 ^ 63)"

subsection \<open>Pods and nodes of the scenarios\<close>

definition scarceResource :: ResourceName where
  "scarceResource = ''intel.com/foo''"

definition requesting :: "ResourceName \<Rightarrow> int64 \<Rightarrow> Container" where
  "requesting resource n =
     \<lparr>Resources = \<lparr>Limits = Map.empty, Requests = [resource \<mapsto> whole n]\<rparr>\<rparr>"

definition podOf :: "Container list \<Rightarrow> Container list \<Rightarrow> Pod" where
  "podOf inits regulars = \<lparr>Spec = \<lparr>InitContainers = inits, Containers = regulars\<rparr>\<rparr>"

definition noResources :: Pod where
  "noResources = podOf [] []"

definition scareResourcePod1 :: Pod where
  "scareResourcePod1 = podOf [] [requesting scarceResource 2]"

definition scareResourcePod2 :: Pod where
  "scareResourcePod2 = podOf [] [requesting scarceResource 4]"

definition cpuPod :: Pod where
  "cpuPod = podOf [] [requesting ''cpu'' 2]"

definition initPod :: Pod where
  "initPod = podOf [requesting scarceResource 6]
                   [requesting scarceResource 1, requesting scarceResource 1]"

definition twoInitPod :: Pod where
  "twoInitPod = podOf [requesting scarceResource 3, requesting scarceResource 4]
                      [requesting scarceResource 1]"

text \<open>
  A node named \<open>name\<close> whose allocatable scalar resources are \<open>alloc\<close>, with the bound
  pods \<open>pods\<close> and the precomputed requested totals \<open>requested\<close>.
\<close>

definition nodeInfoOf ::
  "string \<Rightarrow> (ResourceName \<rightharpoonup> int64) \<Rightarrow> Pod list \<Rightarrow> Resource \<Rightarrow> NodeInfo" where
  "nodeInfoOf name alloc pods requested =
     \<lparr>Node = Some \<lparr>Name = name\<rparr>, Pods = pods, RequestedResource = requested,
      AllocatableResource =
        \<lparr>MilliCPU = 4000, Memory = 10000, EphemeralStorage = 0, ScalarResources = alloc\<rparr>\<rparr>"

definition requestedOf :: "(ResourceName \<rightharpoonup> int64) \<Rightarrow> Resource" where
  "requestedOf scalars =
     \<lparr>MilliCPU = 0, Memory = 0, EphemeralStorage = 0, ScalarResources = scalars\<rparr>"

definition machine1 :: NodeInfo where
  "machine1 = nodeInfoOf ''machine1'' [scarceResource \<mapsto> 8] [] (requestedOf Map.empty)"

definition machine2 :: NodeInfo where
  "machine2 = nodeInfoOf ''machine2'' [scarceResource \<mapsto> 4] [] (requestedOf Map.empty)"

definition machine2busy :: NodeInfo where
  "machine2busy = nodeInfoOf ''machine2'' [scarceResource \<mapsto> 4] [scareResourcePod1]
                    (requestedOf [scarceResource \<mapsto> 2])"

definition bareMachine :: NodeInfo where
  "bareMachine = nodeInfoOf ''machine3'' Map.empty [] (requestedOf Map.empty)"

definition lostMachine :: NodeInfo where
  "lostMachine = (machine1\<lparr>Node := None\<rparr>)"

definition memoryMachine :: NodeInfo where
  "memoryMachine = nodeInfoOf ''machine4'' [''memory'' \<mapsto> 10000] []
     \<lparr>MilliCPU = 0, Memory = 4096, EphemeralStorage = 0, ScalarResources = Map.empty\<rparr>"

text \<open>A pod whose only container declares a request under the empty resource name.\<close>

definition namelessPod :: Pod where
  "namelessPod = podOf [] [requesting [] 1]"

text \<open>A node whose allocatable scalar resources have an entry under the empty name.\<close>

definition namelessMachine :: NodeInfo where
  "namelessMachine = nodeInfoOf ''machine5'' [[] \<mapsto> 8] [] (requestedOf Map.empty)"

definition hugePod :: Pod where
  "hugePod = podOf [] [requesting scarceResource 4611686018427387904]"

definition machine1huge :: NodeInfo where
  "machine1huge = nodeInfoOf ''machine1'' [scarceResource \<mapsto> 8] [hugePod]
                    (requestedOf [scarceResource \<mapsto> 4611686018427387904])"

section \<open>Properties\<close>

subsection \<open>Unfolding the scenarios and the scorers\<close>

lemmas scenario_defs =
  scarceResource_def requesting_def whole_def podOf_def nodeInfoOf_def requestedOf_def

lemmas scorer_defs =
  ResourceBinPackingPriorityMap_def ScarceResourceBinPackingPriorityMap_def
  calculateScareResourceScore_def calculateScareResourceScore_scarce_def
  podRequestsResource_def containerRequestsResource_def usedResource_def reqResource_def
  usedResource_scarce_def reqResource_scarce_def scoreOf_def goDiv_def truncQuot_def
  mapIndex_def MaxPriority_def emptyHostPriority_def allocatable_def

lemma sumRequests_acc: "sumRequests r cs acc = acc + sum_list (map (requestValue r) cs)"
  by (induction cs arbitrary: acc) (auto simp: requestValue_def split: option.splits)

lemma sumPodsRequests_acc:
  "sumPodsRequests r ps acc =
     acc + sum_list (map (\<lambda>p. sum_list (map (requestValue r) (Containers (Spec p)))) ps)"
  by (induction ps arbitrary: acc) (auto simp: sumRequests_acc)

lemma someContainerRequests_iff:
  "someContainerRequests r cs \<longleftrightarrow> (\<exists>c \<in> set cs. declares c r)"
  by (induction cs) (auto simp: containerRequestsResource_def declares_def split: option.splits)

lemma podRequestsResource_iff:
  "podRequestsResource pod r \<longleftrightarrow>
     (\<exists>c \<in> set (InitContainers (Spec pod) @ Containers (Spec pod)). declares c r)"
  by (auto simp: podRequestsResource_def someContainerRequests_iff)

lemma sdiv_pos:
  "0 < a \<Longrightarrow> (x::int) sdiv a = (if 0 \<le> x then x div a else - ((- x) div a))"
  by (auto simp: signed_divide_int_def sgn_if)

lemma sdiv_pos_mono:
  assumes "0 < a" "x \<le> (y::int)"
  shows "x sdiv a \<le> y sdiv a"
proof -
  consider "0 \<le> x" | "x < 0" "0 \<le> y" | "y < 0" using assms by linarith
  then show ?thesis
  proof cases
    case 1 then show ?thesis using assms by (simp add: sdiv_pos zdiv_mono1)
  next
    case 2
    have "0 \<le> (- x) div a" using 2 assms by (simp add: pos_imp_zdiv_nonneg_iff)
    moreover have "0 \<le> y div a" using 2 assms by (simp add: pos_imp_zdiv_nonneg_iff)
    ultimately show ?thesis using 2 assms by (simp add: sdiv_pos)
  next
    case 3
    have "(- y) div a \<le> (- x) div a" using assms by (intro zdiv_mono1) auto
    then show ?thesis using 3 assms by (simp add: sdiv_pos)
  qed
qed

lemma sdiv_pos_range:
  assumes "0 < a" "inInt64 x"
  shows "inInt64 (x sdiv a)"
proof (cases "0 \<le> x")
  case True
  have "x div a \<le> x div 1" using True assms by (intro zdiv_mono2) auto
  moreover have "0 \<le> x div a" using True assms by (simp add: pos_imp_zdiv_nonneg_iff)
  ultimately show ?thesis using True assms by (simp add: sdiv_pos inInt64_def)
next
  case False
  have "(- x) div a \<le> (- x) div 1" using False assms by (intro zdiv_mono2) auto
  moreover have "0 \<le> (- x) div a" using False assms by (simp add: pos_imp_zdiv_nonneg_iff)
  ultimately show ?thesis using False assms by (simp add: sdiv_pos inInt64_def)
qed

lemma sint_in_range: "inInt64 (sint (w::int64))"
  using sint_range_size [of w] by (simp add: inInt64_def word_size)

lemma sint_of_int_in_range: "inInt64 k \<Longrightarrow> sint (word_of_int k :: int64) = k"
  by (simp add: inInt64_def sint_sbintrunc' signed_take_bit_int_eq_self)

lemma sint_times10:
  assumes "inInt64 ((sint (u::int64) + sint (d::int64)) * 10)"
  shows "sint ((u + d) * 10) = (sint u + sint d) * 10"
proof -
  have r: "inInt64 (sint u + sint d)" using assms by (simp add: inInt64_def)
  have "u + d = word_of_int (sint u + sint d)" by simp
  then have s: "sint (u + d) = sint u + sint d" using r by (metis sint_of_int_in_range)
  have "(u + d) * 10 = word_of_int ((sint u + sint d) * 10)" by simp
  then show ?thesis using assms by (metis sint_of_int_in_range)
qed

lemma scoreOf_value:
  assumes "0 < sint available" "inInt64 ((sint used + sint demand) * 10)"
  shows "\<exists>s. scoreOf used demand available = Inr s \<and>
             sint s = ((sint used + sint demand) * 10) sdiv sint available"
proof -
  have nz: "available \<noteq> 0" using assms(1) by auto
  have "inInt64 (((sint used + sint demand) * 10) sdiv sint available)"
    using assms by (rule sdiv_pos_range)
  then have "sint (word_of_int (((sint used + sint demand) * 10) sdiv sint available) :: int64)
      = ((sint used + sint demand) * 10) sdiv sint available"
    by (rule sint_of_int_in_range)
  moreover have "scoreOf used demand available
      = Inr (word_of_int (sint ((used + demand) * 10) sdiv sint available))"
    using nz by (simp only: scoreOf_def goDiv_def truncQuot_def MaxPriority_def if_False)
  ultimately show ?thesis using sint_times10 [OF assms(2)] by simp
qed

lemma goDiv_zero: "goDiv a 0 = Inl IntegerDivideByZero"
  by (simp add: goDiv_def)

lemma calculate_generic_eq:
  "calculateScareResourceScore nodeInfo pod r =
     goDiv ((usedResource nodeInfo r + reqResource pod r) * 10) (allocatable nodeInfo r)"
  by (simp add: calculateScareResourceScore_def scoreOf_def allocatable_def MaxPriority_def)

lemma calculate_scarce_eq:
  "calculateScareResourceScore_scarce nodeInfo cs r =
     goDiv ((usedResource_scarce nodeInfo r + reqResource_scarce cs r) * 10) (allocatable nodeInfo r)"
  by (simp add: calculateScareResourceScore_scarce_def scoreOf_def allocatable_def MaxPriority_def)

subsection \<open>The gate\<close>

text \<open>
  Claim C1, as stated, fails on the generic scorer: the check \<open>len(r.resource) == 0\<close>
  comes before the gate, so with the empty resource name (the one
  \<open>ResourceBinPackingPriorityDefault\<close> builds) a pod that requests nothing gets the
  error \<open>resource not defined\<close> on a node that is found, not the score 0.
\<close>

theorem generic_empty_name_counterexample:
  "Node machine1 = Some \<lparr>Name = ''machine1''\<rparr> \<and>
   \<not> podRequestsResource noResources [] \<and>
   ResourceBinPackingPriorityMap [] noResources machine1 =
     Inr (emptyHostPriority, Some ''resource not defined'')"
  by (simp add: scenario_defs noResources_def machine1_def scorer_defs)

text \<open>
  Claim C1, amended: on a node whose identity resolves, a pod none of whose containers,
  init or regular, declares a request or limit for \<open>r\<close> above zero milli-units is
  scored 0 with no error by the scarce-resource scorer for every \<open>r\<close>, and by the
  generic scorer for every non-empty \<open>r\<close>; with the empty name the generic scorer
  returns the error \<open>resource not defined\<close>.
\<close>

theorem no_request_scores_zero:
  assumes "Node nodeInfo = Some node"
    and "\<forall>c \<in> set (InitContainers (Spec pod) @ Containers (Spec pod)). \<not> declares c r"
  shows "\<not> podRequestsResource pod r \<and>
     ScarceResourceBinPackingPriorityMap r pod nodeInfo =
       Inr (\<lparr>Host = Name node, Score = 0\<rparr>, None) \<and>
     (r \<noteq> [] \<longrightarrow> ResourceBinPackingPriorityMap r pod nodeInfo =
       Inr (\<lparr>Host = Name node, Score = 0\<rparr>, None)) \<and>
     (r = [] \<longrightarrow> ResourceBinPackingPriorityMap r pod nodeInfo =
       Inr (emptyHostPriority, Some ''resource not defined''))"
proof -
  have gate: "\<not> podRequestsResource pod r"
    using assms(2) by (simp only: podRequestsResource_iff) blast
  show ?thesis using gate assms(1)
    by (simp add: ScarceResourceBinPackingPriorityMap_def ResourceBinPackingPriorityMap_def)
qed

text \<open>
  Claim C1, witness: a pod that requests only \<open>cpu\<close>, scored for \<open>intel.com/foo\<close>
  on \<open>machine1\<close>.
\<close>

theorem no_request_scores_zero_witness:
  "Node machine1 = Some \<lparr>Name = ''machine1''\<rparr> \<and>
   InitContainers (Spec cpuPod) @ Containers (Spec cpuPod) = [requesting ''cpu'' 2] \<and>
   \<not> declares (requesting ''cpu'' 2) scarceResource \<and>
   ScarceResourceBinPackingPriorityMap scarceResource cpuPod machine1 =
     Inr (\<lparr>Host = ''machine1'', Score = 0\<rparr>, None) \<and>
   ResourceBinPackingPriorityMap scarceResource cpuPod machine1 =
     Inr (\<lparr>Host = ''machine1'', Score = 0\<rparr>, None)"
proof -
  have n: "Node machine1 = Some \<lparr>Name = ''machine1''\<rparr>"
    by (simp add: scenario_defs cpuPod_def machine1_def)
  have d: "\<forall>c \<in> set (InitContainers (Spec cpuPod) @ Containers (Spec cpuPod)). \<not> declares c scarceResource"
    by (simp add: scenario_defs cpuPod_def machine1_def declares_def)
  have ne: "scarceResource \<noteq> []" by (simp add: scarceResource_def)
  have l: "InitContainers (Spec cpuPod) @ Containers (Spec cpuPod) = [requesting ''cpu'' 2]"
    by (simp add: scenario_defs cpuPod_def machine1_def)
  have nd: "\<not> declares (requesting ''cpu'' 2) scarceResource"
    by (simp add: scenario_defs cpuPod_def machine1_def declares_def)
  show ?thesis using no_request_scores_zero [OF n d] n l nd ne by simp
qed

subsection \<open>Effective demand\<close>

text \<open>
  Claim C2, as stated, fails. The generic scorer adds the requests of the init
  containers up: with init containers requesting 3 and 4 and one regular container
  requesting 1 its demand is 7, where the largest single init request gives 4. The
  scarce-resource scorer is handed \<open>pod.Spec.Containers\<close> only: for the pod with one
  init container requesting 6 and two regular containers requesting 1 each its demand
  is 2, not 6.
\<close>

theorem effective_demand_counterexample:
  "reqResource twoInitPod scarceResource = 7 \<and>
   EffectiveDemand_spec twoInitPod scarceResource = 4 \<and>
   reqResource_scarce (Containers (Spec initPod)) scarceResource = 2 \<and>
   EffectiveDemand_spec initPod scarceResource = 6"
  by (simp add: scenario_defs initPod_def twoInitPod_def reqResource_def reqResource_scarce_def
      EffectiveDemand_spec_def
      requestValue_def smax_def)

text \<open>
  Claim C2, amended: the demand of the generic scorer is the larger of \<open>S\<close>, the sum of
  the requests of the regular containers, and the sum (not the maximum) of the requests
  of the init containers; the demand of the scarce-resource scorer is \<open>S\<close>. For one
  init container requesting 6 and two regular containers requesting 1 each, the generic
  demand is 6.
\<close>

theorem effective_demand_of_the_scorers:
  "reqResource pod r =
     smax (sum_list (map (requestValue r) (Containers (Spec pod))))
          (sum_list (map (requestValue r) (InitContainers (Spec pod)))) \<and>
   reqResource_scarce (Containers (Spec pod)) r =
     sum_list (map (requestValue r) (Containers (Spec pod))) \<and>
   reqResource initPod scarceResource = 6"
proof -
  have "reqResource initPod scarceResource = 6"
    by (simp add: scenario_defs initPod_def reqResource_def)
  then show ?thesis
    by (simp add: reqResource_def reqResource_scarce_def sumRequests_acc smax_def Let_def)
qed

subsection \<open>The score\<close>

text \<open>
  Claim C3, as stated, fails. With 2 units demanded, \<open>2 ^ 62\<close> used and allocatable 8,
  the product \<open>(used + demand) * 10\<close> wraps around in 64 bits: both scorers return
  \<open>-1152921504606846973\<close>, while the floor of \<open>(used + demand) * 10 / available\<close> is
  \<open>5764607523034234882\<close>. Both helpers read \<open>available\<close> from the scalar resources
  only: for \<open>cpu\<close> on a node with 4000 allocatable milli-CPU and no scalar entry the
  generic scorer divides by zero. And the generic scorer bound to the empty name returns
  the error \<open>resource not defined\<close> for a pod that requests under that name.
\<close>

theorem score_floor_counterexample:
  "Node machine1huge = Some \<lparr>Name = ''machine1''\<rparr> \<and>
   podRequestsResource scareResourcePod1 scarceResource \<and>
   allocatable machine1huge scarceResource = 8 \<and>
   usedResource machine1huge scarceResource = 4611686018427387904 \<and>
   usedResource_scarce machine1huge scarceResource = 4611686018427387904 \<and>
   reqResource scareResourcePod1 scarceResource = 2 \<and>
   reqResource_scarce (Containers (Spec scareResourcePod1)) scarceResource = 2 \<and>
   ResourceBinPackingPriorityMap scarceResource scareResourcePod1 machine1huge =
     Inr (\<lparr>Host = ''machine1'', Score = - 1152921504606846973\<rparr>, None) \<and>
   ScarceResourceBinPackingPriorityMap scarceResource scareResourcePod1 machine1huge =
     Inr (\<lparr>Host = ''machine1'', Score = - 1152921504606846973\<rparr>, None) \<and>
   sint (- 1152921504606846973 :: int64) = - 1152921504606846973 \<and>
   scoreFormula 4611686018427387904 2 8 = 5764607523034234882 \<and>
   Node machine1 = Some \<lparr>Name = ''machine1''\<rparr> \<and>
   podRequestsResource cpuPod ''cpu'' \<and>
   MilliCPU (AllocatableResource machine1) = 4000 \<and>
   ResourceBinPackingPriorityMap ''cpu'' cpuPod machine1 = Inl IntegerDivideByZero \<and>
   Node namelessMachine = Some \<lparr>Name = ''machine5''\<rparr> \<and>
   podRequestsResource namelessPod [] \<and>
   allocatable namelessMachine [] = 8 \<and>
   ResourceBinPackingPriorityMap [] namelessPod namelessMachine =
     Inr (emptyHostPriority, Some ''resource not defined'')"
  by (simp add: scenario_defs scareResourcePod1_def machine1huge_def hugePod_def machine1_def
      cpuPod_def namelessPod_def namelessMachine_def scorer_defs scoreFormula_def
      signed_divide_int_def)

text \<open>
  Claim C3, amended: for a pod that requests \<open>r\<close> on a node that is found and whose
  allocatable scalar-resource entry for \<open>r\<close> (what both helpers divide by) is positive,
  the returned score is the floor of \<open>(used + demand) * 10 / available\<close>, provided
  \<open>used + demand\<close> is not negative and \<open>(used + demand) * 10\<close> stays below \<open>2 ^ 63\<close>;
  the generic scorer is bound to a non-empty name. Here \<open>used\<close> and \<open>demand\<close> are the
  scorer's own: in the scarce-resource scorer the requests of the containers of the bound
  pods and of the pod's regular containers; in the generic scorer the larger of the
  regular and the init containers' summed requests, and, for a name that is not
  special-cased, the precomputed scalar total.
\<close>

theorem score_is_floor_without_wrap:
  assumes "Node nodeInfo = Some node" and "podRequestsResource pod r"
    and "0 < sint (allocatable nodeInfo r)"
  shows
    "(r \<noteq> [] \<longrightarrow>
        0 \<le> sint (usedResource nodeInfo r) + sint (reqResource pod r) \<longrightarrow>
        (sint (usedResource nodeInfo r) + sint (reqResource pod r)) * 10 < 2 ^ 63 \<longrightarrow>
        (\<exists>s. ResourceBinPackingPriorityMap r pod nodeInfo =
               Inr (\<lparr>Host = Name node, Score = s\<rparr>, None) \<and>
             sint s = scoreFormula (sint (usedResource nodeInfo r)) (sint (reqResource pod r))
                        (sint (allocatable nodeInfo r)))) \<and>
     (0 \<le> sint (usedResource_scarce nodeInfo r) +
            sint (reqResource_scarce (Containers (Spec pod)) r) \<longrightarrow>
        (sint (usedResource_scarce nodeInfo r) +
           sint (reqResource_scarce (Containers (Spec pod)) r)) * 10 < 2 ^ 63 \<longrightarrow>
        (\<exists>s. ScarceResourceBinPackingPriorityMap r pod nodeInfo =
               Inr (\<lparr>Host = Name node, Score = s\<rparr>, None) \<and>
             sint s = scoreFormula (sint (usedResource_scarce nodeInfo r))
                        (sint (reqResource_scarce (Containers (Spec pod)) r))
                        (sint (allocatable nodeInfo r)))) \<and>
     reqResource pod r =
       smax (sum_list (map (requestValue r) (Containers (Spec pod))))
            (sum_list (map (requestValue r) (InitContainers (Spec pod)))) \<and>
     reqResource_scarce (Containers (Spec pod)) r =
       sum_list (map (requestValue r) (Containers (Spec pod))) \<and>
     usedResource_scarce nodeInfo r =
       sum_list (map (\<lambda>p. sum_list (map (requestValue r) (Containers (Spec p)))) (Pods nodeInfo)) \<and>
     (r \<noteq> ''cpu'' \<longrightarrow> r \<noteq> ''storage'' \<longrightarrow> r \<noteq> ''ephemeral-storage'' \<longrightarrow>
        usedResource nodeInfo r = mapIndex (ScalarResources (RequestedResource nodeInfo)) r)"
proof -
  have fl: "\<exists>s. scoreOf u d (allocatable nodeInfo r) = Inr s \<and>
              sint s = scoreFormula (sint u) (sint d) (sint (allocatable nodeInfo r))"
    if a: "0 \<le> sint u + sint d" and b: "(sint u + sint d) * 10 < 2 ^ 63" for u d :: int64
  proof -
    have rg: "inInt64 ((sint u + sint d) * 10)" using a b by (simp add: inInt64_def)
    obtain s where s: "scoreOf u d (allocatable nodeInfo r) = Inr s"
        "sint s = ((sint u + sint d) * 10) sdiv sint (allocatable nodeInfo r)"
      using scoreOf_value [OF assms(3) rg] by blast
    have "((sint u + sint d) * 10) sdiv sint (allocatable nodeInfo r)
        = ((sint u + sint d) * 10) div sint (allocatable nodeInfo r)"
      using a assms(3) by (simp add: sdiv_pos)
    then show ?thesis using s by (auto simp: scoreFormula_def)
  qed
  have g: "calculateScareResourceScore nodeInfo pod r =
      scoreOf (usedResource nodeInfo r) (reqResource pod r) (allocatable nodeInfo r)"
    by (simp add: calculateScareResourceScore_def allocatable_def)
  have s: "calculateScareResourceScore_scarce nodeInfo (Containers (Spec pod)) r =
      scoreOf (usedResource_scarce nodeInfo r) (reqResource_scarce (Containers (Spec pod)) r)
        (allocatable nodeInfo r)"
    by (simp add: calculateScareResourceScore_scarce_def allocatable_def)
  have c1: "r \<noteq> [] \<longrightarrow>
        0 \<le> sint (usedResource nodeInfo r) + sint (reqResource pod r) \<longrightarrow>
        (sint (usedResource nodeInfo r) + sint (reqResource pod r)) * 10 < 2 ^ 63 \<longrightarrow>
        (\<exists>s. ResourceBinPackingPriorityMap r pod nodeInfo =
               Inr (\<lparr>Host = Name node, Score = s\<rparr>, None) \<and>
             sint s = scoreFormula (sint (usedResource nodeInfo r)) (sint (reqResource pod r))
                        (sint (allocatable nodeInfo r)))"
    using fl [of "usedResource nodeInfo r" "reqResource pod r"] assms(1,2)
    by (auto simp: ResourceBinPackingPriorityMap_def g)
  have c2: "0 \<le> sint (usedResource_scarce nodeInfo r) +
            sint (reqResource_scarce (Containers (Spec pod)) r) \<longrightarrow>
        (sint (usedResource_scarce nodeInfo r) +
           sint (reqResource_scarce (Containers (Spec pod)) r)) * 10 < 2 ^ 63 \<longrightarrow>
        (\<exists>s. ScarceResourceBinPackingPriorityMap r pod nodeInfo =
               Inr (\<lparr>Host = Name node, Score = s\<rparr>, None) \<and>
             sint s = scoreFormula (sint (usedResource_scarce nodeInfo r))
                        (sint (reqResource_scarce (Containers (Spec pod)) r))
                        (sint (allocatable nodeInfo r)))"
    using fl [of "usedResource_scarce nodeInfo r" "reqResource_scarce (Containers (Spec pod)) r"]
      assms(1,2)
    by (auto simp: ScarceResourceBinPackingPriorityMap_def s)
  have c3: "reqResource pod r =
       smax (sum_list (map (requestValue r) (Containers (Spec pod))))
            (sum_list (map (requestValue r) (InitContainers (Spec pod))))"
    by (simp add: reqResource_def sumRequests_acc smax_def Let_def)
  have c4: "reqResource_scarce (Containers (Spec pod)) r =
       sum_list (map (requestValue r) (Containers (Spec pod)))"
    by (simp add: reqResource_scarce_def sumRequests_acc)
  have c5: "usedResource_scarce nodeInfo r =
       sum_list (map (\<lambda>p. sum_list (map (requestValue r) (Containers (Spec p)))) (Pods nodeInfo))"
    by (simp add: usedResource_scarce_def sumPodsRequests_acc)
  have c6: "r \<noteq> ''cpu'' \<longrightarrow> r \<noteq> ''storage'' \<longrightarrow> r \<noteq> ''ephemeral-storage'' \<longrightarrow>
        usedResource nodeInfo r = mapIndex (ScalarResources (RequestedResource nodeInfo)) r"
    by (simp add: usedResource_def)
  show ?thesis using c1 c2 c3 c4 c5 c6 by blast
qed

text \<open>
  Claim C3, witness: the pod demanding 2 units. On \<open>machine2\<close> with one bound pod
  (2 used, allocatable 4) both scorers return 10; with nothing used the node with
  allocatable 8 scores 2 and the node with allocatable 4 scores 5.
\<close>

theorem score_is_floor_without_wrap_witness:
  "podRequestsResource scareResourcePod1 scarceResource \<and>
   reqResource scareResourcePod1 scarceResource = 2 \<and>
   reqResource_scarce (Containers (Spec scareResourcePod1)) scarceResource = 2 \<and>
   usedResource machine2busy scarceResource = 2 \<and>
   usedResource_scarce machine2busy scarceResource = 2 \<and>
   allocatable machine2busy scarceResource = 4 \<and>
   scoreFormula 2 2 4 = 10 \<and>
   ResourceBinPackingPriorityMap scarceResource scareResourcePod1 machine2busy =
     Inr (\<lparr>Host = ''machine2'', Score = 10\<rparr>, None) \<and>
   ScarceResourceBinPackingPriorityMap scarceResource scareResourcePod1 machine2busy =
     Inr (\<lparr>Host = ''machine2'', Score = 10\<rparr>, None) \<and>
   usedResource machine1 scarceResource = 0 \<and> allocatable machine1 scarceResource = 8 \<and>
   scoreFormula 0 2 8 = 2 \<and>
   ResourceBinPackingPriorityMap scarceResource scareResourcePod1 machine1 =
     Inr (\<lparr>Host = ''machine1'', Score = 2\<rparr>, None) \<and>
   ScarceResourceBinPackingPriorityMap scarceResource scareResourcePod1 machine1 =
     Inr (\<lparr>Host = ''machine1'', Score = 2\<rparr>, None) \<and>
   usedResource machine2 scarceResource = 0 \<and> allocatable machine2 scarceResource = 4 \<and>
   scoreFormula 0 2 4 = 5 \<and>
   ResourceBinPackingPriorityMap scarceResource scareResourcePod1 machine2 =
     Inr (\<lparr>Host = ''machine2'', Score = 5\<rparr>, None) \<and>
   ScarceResourceBinPackingPriorityMap scarceResource scareResourcePod1 machine2 =
     Inr (\<lparr>Host = ''machine2'', Score = 5\<rparr>, None)"
proof -
  have p: "podRequestsResource scareResourcePod1 scarceResource"
    by (simp add: scenario_defs scareResourcePod1_def podRequestsResource_def
        containerRequestsResource_def)
  have ne: "scarceResource \<noteq> []" by (simp add: scarceResource_def)
  have d: "reqResource scareResourcePod1 scarceResource = 2"
      "reqResource_scarce (Containers (Spec scareResourcePod1)) scarceResource = 2"
    by (simp_all add: scenario_defs scareResourcePod1_def reqResource_def reqResource_scarce_def)
  have n: "Node machine2busy = Some \<lparr>Name = ''machine2''\<rparr>"
      "Node machine1 = Some \<lparr>Name = ''machine1''\<rparr>"
      "Node machine2 = Some \<lparr>Name = ''machine2''\<rparr>"
    by (simp_all add: scenario_defs machine2busy_def machine1_def machine2_def)
  have u: "usedResource machine2busy scarceResource = 2"
      "usedResource_scarce machine2busy scarceResource = 2"
      "usedResource machine1 scarceResource = 0" "usedResource_scarce machine1 scarceResource = 0"
      "usedResource machine2 scarceResource = 0" "usedResource_scarce machine2 scarceResource = 0"
    by (simp_all add: scenario_defs machine2busy_def machine1_def machine2_def
        scareResourcePod1_def usedResource_def usedResource_scarce_def mapIndex_def)
  have a: "allocatable machine2busy scarceResource = 4" "allocatable machine1 scarceResource = 8"
      "allocatable machine2 scarceResource = 4"
    by (simp_all add: scenario_defs machine2busy_def machine1_def machine2_def allocatable_def
        mapIndex_def)
  have f: "scoreFormula 2 2 4 = 10" "scoreFormula 0 2 8 = 2" "scoreFormula 0 2 4 = 5"
    by (simp_all add: scoreFormula_def)
  have pos: "0 < sint (allocatable machine2busy scarceResource)"
      "0 < sint (allocatable machine1 scarceResource)"
      "0 < sint (allocatable machine2 scarceResource)"
    by (simp_all add: a)
  have w: "s = 10" if "sint s = 10" for s :: int64
    by (rule signed_word_eqI [where 'a = int]) (simp add: that)
  have w2: "s = 2" if "sint s = 2" for s :: int64
    by (rule signed_word_eqI [where 'a = int]) (simp add: that)
  have w5: "s = 5" if "sint s = 5" for s :: int64
    by (rule signed_word_eqI [where 'a = int]) (simp add: that)
  have busy: "ResourceBinPackingPriorityMap scarceResource scareResourcePod1 machine2busy =
       Inr (\<lparr>Host = ''machine2'', Score = 10\<rparr>, None) \<and>
     ScarceResourceBinPackingPriorityMap scarceResource scareResourcePod1 machine2busy =
       Inr (\<lparr>Host = ''machine2'', Score = 10\<rparr>, None)"
    using score_is_floor_without_wrap [OF n(1) p pos(1)] ne by (auto simp: u d a f dest: w)
  have m1: "ResourceBinPackingPriorityMap scarceResource scareResourcePod1 machine1 =
       Inr (\<lparr>Host = ''machine1'', Score = 2\<rparr>, None) \<and>
     ScarceResourceBinPackingPriorityMap scarceResource scareResourcePod1 machine1 =
       Inr (\<lparr>Host = ''machine1'', Score = 2\<rparr>, None)"
    using score_is_floor_without_wrap [OF n(2) p pos(2)] ne by (auto simp: u d a f dest: w2)
  have m2: "ResourceBinPackingPriorityMap scarceResource scareResourcePod1 machine2 =
       Inr (\<lparr>Host = ''machine2'', Score = 5\<rparr>, None) \<and>
     ScarceResourceBinPackingPriorityMap scarceResource scareResourcePod1 machine2 =
       Inr (\<lparr>Host = ''machine2'', Score = 5\<rparr>, None)"
    using score_is_floor_without_wrap [OF n(3) p pos(3)] ne by (auto simp: u d a f dest: w5)
  show ?thesis using p d u a f busy m1 m2 by simp
qed

text \<open>
  Claim C4: when the allocatable quantity of \<open>r\<close> on the node is 0 (the key is
  absent from the scalar resources, or mapped to 0), both helpers divide by zero: the
  outcome is the run-time panic, not a score and not an error value. A pod that requests
  \<open>r\<close> reaches the division on a node that is found, so both map functions end in the
  panic (the generic one is bound to a non-empty name).
\<close>

theorem zero_allocatable_panics:
  assumes "allocatable nodeInfo r = 0"
  shows "calculateScareResourceScore nodeInfo pod r = Inl IntegerDivideByZero \<and>
     calculateScareResourceScore_scarce nodeInfo (Containers (Spec pod)) r = Inl IntegerDivideByZero \<and>
     (podRequestsResource pod r \<longrightarrow> Node nodeInfo = Some node \<longrightarrow>
        ScarceResourceBinPackingPriorityMap r pod nodeInfo = Inl IntegerDivideByZero \<and>
        (r \<noteq> [] \<longrightarrow> ResourceBinPackingPriorityMap r pod nodeInfo = Inl IntegerDivideByZero))"
  using assms
  by (simp add: calculate_generic_eq calculate_scarce_eq goDiv_zero
      ScarceResourceBinPackingPriorityMap_def ResourceBinPackingPriorityMap_def)

text \<open>
  Claim C4, witness: the pod requesting 2 units of \<open>intel.com/foo\<close> on a node with no
  such resource.
\<close>

theorem zero_allocatable_panics_witness:
  "allocatable bareMachine scarceResource = 0 \<and>
   podRequestsResource scareResourcePod1 scarceResource \<and>
   Node bareMachine = Some \<lparr>Name = ''machine3''\<rparr> \<and>
   calculateScareResourceScore bareMachine scareResourcePod1 scarceResource = Inl IntegerDivideByZero \<and>
   calculateScareResourceScore_scarce bareMachine (Containers (Spec scareResourcePod1)) scarceResource
     = Inl IntegerDivideByZero \<and>
   ScarceResourceBinPackingPriorityMap scarceResource scareResourcePod1 bareMachine
     = Inl IntegerDivideByZero \<and>
   ResourceBinPackingPriorityMap scarceResource scareResourcePod1 bareMachine
     = Inl IntegerDivideByZero"
proof -
  have a: "allocatable bareMachine scarceResource = 0"
    by (simp add: scenario_defs scareResourcePod1_def bareMachine_def allocatable_def mapIndex_def)
  have p: "podRequestsResource scareResourcePod1 scarceResource"
    by (simp add: scenario_defs scareResourcePod1_def bareMachine_def podRequestsResource_def
        containerRequestsResource_def)
  have n: "Node bareMachine = Some \<lparr>Name = ''machine3''\<rparr>"
    by (simp add: scenario_defs scareResourcePod1_def bareMachine_def)
  have ne: "scarceResource \<noteq> []" by (simp add: scarceResource_def)
  show ?thesis using zero_allocatable_panics [OF a, of scareResourcePod1 "\<lparr>Name = ''machine3''\<rparr>"] a p n ne by simp
qed

subsection \<open>The two scorers compared\<close>

text \<open>
  Claim C5, as stated, fails. On \<open>machine1\<close> (no bound pods, nothing requested, so
  the precomputed total is the sum over the bound pods) the pod with one init container
  requesting 6 and two regular containers requesting 1 each is scored 2 by the
  scarce-resource scorer and 7 by the generic one: only the generic scorer counts init
  containers. With the empty resource name the scarce-resource scorer returns score 0
  and the generic one the error \<open>resource not defined\<close>.
\<close>

theorem scorers_differ_counterexample:
  "mapIndex (ScalarResources (RequestedResource machine1)) scarceResource =
     sum_list (map (\<lambda>p. sum_list (map (requestValue scarceResource) (Containers (Spec p)))) (Pods machine1)) \<and>
   ScarceResourceBinPackingPriorityMap scarceResource initPod machine1 =
     Inr (\<lparr>Host = ''machine1'', Score = 2\<rparr>, None) \<and>
   ResourceBinPackingPriorityMap scarceResource initPod machine1 =
     Inr (\<lparr>Host = ''machine1'', Score = 7\<rparr>, None) \<and>
   ScarceResourceBinPackingPriorityMap [] noResources machine1 =
     Inr (\<lparr>Host = ''machine1'', Score = 0\<rparr>, None) \<and>
   ResourceBinPackingPriorityMap [] noResources machine1 =
     Inr (emptyHostPriority, Some ''resource not defined'')"
  by (simp add: scenario_defs noResources_def initPod_def machine1_def scorer_defs
      signed_divide_int_def)

text \<open>
  Claim C5, amended: for a non-empty resource name \<open>r\<close> other than \<open>cpu\<close>,
  \<open>storage\<close> and \<open>ephemeral-storage\<close> (the names the generic scorer special-cases),
  a node whose precomputed requested total for \<open>r\<close> is the sum of the requests for
  \<open>r\<close> over the containers of its bound pods, and a pod whose init containers' summed
  requests for \<open>r\<close> do not exceed those of its regular containers, both scorers return
  the same outcome: the same pair of host priority and error, or the same panic.
\<close>

theorem scorers_agree:
  assumes "r \<noteq> []" "r \<noteq> ''cpu''" "r \<noteq> ''storage''" "r \<noteq> ''ephemeral-storage''"
    and "mapIndex (ScalarResources (RequestedResource nodeInfo)) r =
      sum_list (map (\<lambda>p. sum_list (map (requestValue r) (Containers (Spec p)))) (Pods nodeInfo))"
    and "sint (sum_list (map (requestValue r) (InitContainers (Spec pod))))
       \<le> sint (sum_list (map (requestValue r) (Containers (Spec pod))))"
  shows "ScarceResourceBinPackingPriorityMap r pod nodeInfo =
         ResourceBinPackingPriorityMap r pod nodeInfo"
proof -
  have u: "usedResource nodeInfo r = usedResource_scarce nodeInfo r"
    using assms(2-5) by (simp add: usedResource_def usedResource_scarce_def sumPodsRequests_acc)
  have d: "reqResource pod r = reqResource_scarce (Containers (Spec pod)) r"
    using assms(6) by (simp add: reqResource_def reqResource_scarce_def sumRequests_acc Let_def)
  have "calculateScareResourceScore nodeInfo pod r =
        calculateScareResourceScore_scarce nodeInfo (Containers (Spec pod)) r"
    by (simp add: calculate_generic_eq calculate_scarce_eq u d)
  then show ?thesis using assms(1)
    by (simp add: ScarceResourceBinPackingPriorityMap_def ResourceBinPackingPriorityMap_def
        split: option.splits)
qed

text \<open>
  Claim C5, witness: the pod requesting 2 units on \<open>machine2\<close> with one bound pod
  requesting 2; both scorers return 10.
\<close>

theorem scorers_agree_witness:
  "ScarceResourceBinPackingPriorityMap scarceResource scareResourcePod1 machine2busy =
     Inr (\<lparr>Host = ''machine2'', Score = 10\<rparr>, None) \<and>
   ResourceBinPackingPriorityMap scarceResource scareResourcePod1 machine2busy =
     Inr (\<lparr>Host = ''machine2'', Score = 10\<rparr>, None)"
proof -
  have ne: "scarceResource \<noteq> []" "scarceResource \<noteq> ''cpu''" "scarceResource \<noteq> ''storage''"
      "scarceResource \<noteq> ''ephemeral-storage''"
    by (simp_all add: scarceResource_def)
  have pre: "mapIndex (ScalarResources (RequestedResource machine2busy)) scarceResource =
      sum_list (map (\<lambda>p. sum_list (map (requestValue scarceResource) (Containers (Spec p))))
        (Pods machine2busy))"
    by (simp add: scenario_defs scareResourcePod1_def machine2busy_def machine2_def mapIndex_def
        requestValue_def)
  have ini: "sint (sum_list (map (requestValue scarceResource) (InitContainers (Spec scareResourcePod1))))
       \<le> sint (sum_list (map (requestValue scarceResource) (Containers (Spec scareResourcePod1))))"
    by (simp add: scenario_defs scareResourcePod1_def machine2busy_def machine2_def
        requestValue_def)
  have v: "ResourceBinPackingPriorityMap scarceResource scareResourcePod1 machine2busy =
     Inr (\<lparr>Host = ''machine2'', Score = 10\<rparr>, None)"
    by (simp add: scenario_defs scareResourcePod1_def machine2busy_def machine2_def scorer_defs
        signed_divide_int_def)
  show ?thesis using scorers_agree [OF ne pre ini] v by simp
qed

subsection \<open>Sources of the used total, errors\<close>

text \<open>
  Claim C6 at the resource name \<open>memory\<close>: the generic scorer compares the name with
  \<open>storage\<close> before it reads \<open>RequestedResource().Memory\<close>, so on a node with 4096
  bytes of memory requested the used total for \<open>memory\<close> comes from the scalar
  resources and is 0, while the name \<open>storage\<close> yields the memory total.
\<close>

theorem memory_total_is_read_under_storage:
  "Memory (RequestedResource memoryMachine) = 4096 \<and>
   usedResource memoryMachine ''memory'' = 0 \<and>
   usedResource memoryMachine ''storage'' = 4096"
  by (simp add: scenario_defs memoryMachine_def usedResource_def mapIndex_def)

text \<open>
  Claim C7, as stated, fails: the generic scorer tests the resource name before the
  node, so with an empty name and a node that cannot be resolved the error is
  \<open>resource not defined\<close>, not \<open>node not found\<close>.
\<close>

theorem empty_name_checked_first_counterexample:
  "Node lostMachine = None \<and>
   ResourceBinPackingPriorityMap [] scareResourcePod1 lostMachine =
     Inr (emptyHostPriority, Some ''resource not defined'')"
  by (simp add: scenario_defs scareResourcePod1_def lostMachine_def machine1_def scorer_defs)

text \<open>
  Claim C7, amended: on a node state whose node cannot be resolved the generic scorer
  always fails; the error is \<open>node not found\<close> when the resource name is non-empty
  and \<open>resource not defined\<close> when it is empty, since the check of the name comes
  first.
\<close>

theorem node_not_found_error:
  assumes "Node nodeInfo = None"
  shows "ResourceBinPackingPriorityMap r pod nodeInfo =
     Inr (emptyHostPriority, Some (if r = [] then ''resource not defined'' else ''node not found''))"
  using assms by (simp add: ResourceBinPackingPriorityMap_def)

text \<open>
  Claim C7, witness: \<open>intel.com/foo\<close> on a node state without a node.
\<close>

theorem node_not_found_error_witness:
  "Node lostMachine = None \<and>
   ResourceBinPackingPriorityMap scarceResource scareResourcePod1 lostMachine =
     Inr (emptyHostPriority, Some ''node not found'')"
proof -
  have n: "Node lostMachine = None"
    by (simp add: scenario_defs scareResourcePod1_def lostMachine_def machine1_def)
  have ne: "scarceResource \<noteq> []" by (simp add: scarceResource_def)
  show ?thesis using node_not_found_error [OF n, of scarceResource scareResourcePod1] n ne by simp
qed

subsection \<open>Bounds and order\<close>

text \<open>
  Claim C8: no upper clamp. Some pod requests a resource on a node where
  \<open>used + demand > available > 0\<close>, and both scorers return a score above
  \<open>MaxPriority\<close>: the pod requesting 4 units on \<open>machine2\<close> (allocatable 4, 2 used)
  is scored 15.
\<close>

theorem score_exceeds_MaxPriority:
  "\<exists>pod nodeInfo r hp hp'.
     podRequestsResource pod r \<and>
     0 < sint (allocatable nodeInfo r) \<and>
     sint (allocatable nodeInfo r) < sint (usedResource nodeInfo r) + sint (reqResource pod r) \<and>
     sint (allocatable nodeInfo r) <
       sint (usedResource_scarce nodeInfo r) + sint (reqResource_scarce (Containers (Spec pod)) r) \<and>
     ResourceBinPackingPriorityMap r pod nodeInfo = Inr (hp, None) \<and>
     sint MaxPriority < sint (Score hp) \<and>
     ScarceResourceBinPackingPriorityMap r pod nodeInfo = Inr (hp', None) \<and>
     sint MaxPriority < sint (Score hp')"
proof -
  have "podRequestsResource scareResourcePod2 scarceResource \<and>
     0 < sint (allocatable machine2busy scarceResource) \<and>
     sint (allocatable machine2busy scarceResource) <
       sint (usedResource machine2busy scarceResource) + sint (reqResource scareResourcePod2 scarceResource) \<and>
     sint (allocatable machine2busy scarceResource) <
       sint (usedResource_scarce machine2busy scarceResource) +
       sint (reqResource_scarce (Containers (Spec scareResourcePod2)) scarceResource) \<and>
     ResourceBinPackingPriorityMap scarceResource scareResourcePod2 machine2busy =
       Inr (\<lparr>Host = ''machine2'', Score = 15\<rparr>, None) \<and>
     sint MaxPriority < sint (Score \<lparr>Host = ''machine2'', Score = 15\<rparr>) \<and>
     ScarceResourceBinPackingPriorityMap scarceResource scareResourcePod2 machine2busy =
       Inr (\<lparr>Host = ''machine2'', Score = 15\<rparr>, None) \<and>
     sint MaxPriority < sint (Score \<lparr>Host = ''machine2'', Score = 15\<rparr>)"
    by (simp add: scenario_defs scareResourcePod2_def machine2busy_def machine2_def
        scareResourcePod1_def scorer_defs signed_divide_int_def)
  then show ?thesis by blast
qed

text \<open>
  Claim C9, as stated, fails in 64-bit arithmetic: the product \<open>(used + demand) * 10\<close>
  wraps around. With demand 2 and allocatable 8, the used total 0 gives the score 2, and
  the larger used total \<open>2 ^ 62\<close> gives a negative score, in both helpers.
\<close>

theorem score_wraps_counterexample:
  "allocatable machine1 scarceResource = 8 \<and>
   allocatable machine1huge scarceResource = 8 \<and>
   reqResource scareResourcePod1 scarceResource = 2 \<and>
   usedResource machine1 scarceResource = 0 \<and>
   usedResource machine1huge scarceResource = 4611686018427387904 \<and>
   usedResource_scarce machine1 scarceResource = 0 \<and>
   usedResource_scarce machine1huge scarceResource = 4611686018427387904 \<and>
   sint (0 :: int64) \<le> sint (4611686018427387904 :: int64) \<and>
   scoreOf 0 2 8 = Inr 2 \<and>
   scoreOf 4611686018427387904 2 8 = Inr (- 1152921504606846973) \<and>
   calculateScareResourceScore machine1 scareResourcePod1 scarceResource = Inr 2 \<and>
   calculateScareResourceScore machine1huge scareResourcePod1 scarceResource =
     Inr (- 1152921504606846973) \<and>
   calculateScareResourceScore_scarce machine1 (Containers (Spec scareResourcePod1)) scarceResource =
     Inr 2 \<and>
   calculateScareResourceScore_scarce machine1huge (Containers (Spec scareResourcePod1)) scarceResource =
     Inr (- 1152921504606846973) \<and>
   sint (- 1152921504606846973 :: int64) < sint (2 :: int64)"
  by (simp add: scenario_defs scareResourcePod1_def machine1huge_def machine1_def hugePod_def
      scorer_defs signed_divide_int_def)

text \<open>
  Claim C9, amended: for a fixed demand and a fixed \<open>available > 0\<close>, and
  \<open>0 \<le> used1 \<le> used2\<close>, the score computed from \<open>used1\<close> is at most the score
  computed from \<open>used2\<close>, provided the products \<open>(used + demand) * 10\<close> stay within
  the signed 64-bit range (from below for \<open>used1\<close>, from above for \<open>used2\<close>). Both
  helpers compute their result by \<open>scoreOf\<close>.
\<close>

theorem score_monotone_in_used:
  assumes "0 < sint available" and "0 \<le> sint used1" and "sint used1 \<le> sint used2"
    and "- (2 ^ 63) \<le> (sint used1 + sint demand) * 10"
    and "(sint used2 + sint demand) * 10 < 2 ^ 63"
  shows "(\<exists>s1 s2. scoreOf used1 demand available = Inr s1 \<and>
            scoreOf used2 demand available = Inr s2 \<and> sint s1 \<le> sint s2) \<and>
     calculateScareResourceScore nodeInfo pod r =
       scoreOf (usedResource nodeInfo r) (reqResource pod r) (allocatable nodeInfo r) \<and>
     calculateScareResourceScore_scarce nodeInfo (Containers (Spec pod)) r =
       scoreOf (usedResource_scarce nodeInfo r) (reqResource_scarce (Containers (Spec pod)) r)
         (allocatable nodeInfo r)"
proof -
  let ?x1 = "(sint used1 + sint demand) * 10" and ?x2 = "(sint used2 + sint demand) * 10"
  have le: "?x1 \<le> ?x2" using assms(3) by simp
  have r1: "inInt64 ?x1" using assms(4,5) le by (simp add: inInt64_def)
  have r2: "inInt64 ?x2" using assms(4,5) le by (simp add: inInt64_def)
  obtain s1 where s1: "scoreOf used1 demand available = Inr s1" "sint s1 = ?x1 sdiv sint available"
    using scoreOf_value [OF assms(1) r1] by blast
  obtain s2 where s2: "scoreOf used2 demand available = Inr s2" "sint s2 = ?x2 sdiv sint available"
    using scoreOf_value [OF assms(1) r2] by blast
  have "sint s1 \<le> sint s2"
    using sdiv_pos_mono [OF assms(1) le] s1(2) s2(2) by simp
  then have "\<exists>s1 s2. scoreOf used1 demand available = Inr s1 \<and>
            scoreOf used2 demand available = Inr s2 \<and> sint s1 \<le> sint s2"
    using s1(1) s2(1) by blast
  then show ?thesis
    by (simp add: calculateScareResourceScore_def calculateScareResourceScore_scarce_def
        allocatable_def)
qed

text \<open>
  Claim C9, witness: demand 2 and allocatable 4, with 0 and then 2 units used: the scores
  are 5 and 10.
\<close>

theorem score_monotone_in_used_witness:
  "0 < sint (4 :: int64) \<and> sint (0 :: int64) \<le> sint (2 :: int64) \<and>
   scoreOf 0 2 4 = Inr 5 \<and> scoreOf 2 2 4 = Inr 10 \<and> sint (5 :: int64) \<le> sint (10 :: int64) \<and>
   calculateScareResourceScore machine2 scareResourcePod1 scarceResource = Inr 5 \<and>
   calculateScareResourceScore machine2busy scareResourcePod1 scarceResource = Inr 10 \<and>
   calculateScareResourceScore_scarce machine2 (Containers (Spec scareResourcePod1)) scarceResource
     = Inr 5 \<and>
   calculateScareResourceScore_scarce machine2busy (Containers (Spec scareResourcePod1)) scarceResource
     = Inr 10"
proof -
  have a: "0 < sint (4 :: int64)" by simp
  have b: "0 \<le> sint (0 :: int64)" by simp
  have c: "sint (0 :: int64) \<le> sint (2 :: int64)" by simp
  have d: "- (2 ^ 63) \<le> (sint (0 :: int64) + sint (2 :: int64)) * 10" by simp
  have e: "(sint (2 :: int64) + sint (2 :: int64)) * 10 < 2 ^ 63" by simp
  have v: "scoreOf 0 2 4 = Inr 5" "scoreOf 2 2 4 = Inr 10"
    "calculateScareResourceScore machine2 scareResourcePod1 scarceResource = Inr 5"
    "calculateScareResourceScore machine2busy scareResourcePod1 scarceResource = Inr 10"
    "calculateScareResourceScore_scarce machine2 (Containers (Spec scareResourcePod1)) scarceResource
       = Inr 5"
    "calculateScareResourceScore_scarce machine2busy (Containers (Spec scareResourcePod1)) scarceResource
       = Inr 10"
    by (simp_all add: scenario_defs scareResourcePod1_def machine2busy_def machine2_def
        scorer_defs signed_divide_int_def)
  show ?thesis
    using score_monotone_in_used [OF a b c d e, of machine2 scareResourcePod1 scarceResource] v by simp
qed

subsection \<open>Errors of the scarce-resource scorer\<close>

text \<open>
  Claim C10, as stated, fails: on a node that is found the scarce-resource scorer need
  not return at all. A pod requesting \<open>intel.com/foo\<close> on a node without it ends in
  the division by zero; so does, under the empty resource name, a pod with a request
  declared under the empty name, which passes the gate.
\<close>

theorem scarce_scorer_panics_counterexample:
  "Node bareMachine = Some \<lparr>Name = ''machine3''\<rparr> \<and>
   ScarceResourceBinPackingPriorityMap scarceResource scareResourcePod1 bareMachine =
     Inl IntegerDivideByZero \<and>
   Node machine1 = Some \<lparr>Name = ''machine1''\<rparr> \<and>
   podRequestsResource namelessPod [] \<and>
   ScarceResourceBinPackingPriorityMap [] namelessPod machine1 = Inl IntegerDivideByZero"
  by (simp add: scenario_defs scareResourcePod1_def machine1_def bareMachine_def namelessPod_def
      scorer_defs)

text \<open>
  Claim C10, amended: on a node that is found the scarce-resource scorer never returns
  an error. It returns a host priority with a nil error whenever the pod does not request
  the resource or the allocatable quantity is not 0, and ends in the division-by-zero
  panic otherwise. The empty resource name is not reported as an error: a pod that
  declares nothing under the empty name fails the gate and is scored 0.
\<close>

theorem scarce_scorer_never_returns_error:
  assumes "Node nodeInfo = Some node"
  shows "(\<forall>hp e. ScarceResourceBinPackingPriorityMap r pod nodeInfo \<noteq> Inr (hp, Some e)) \<and>
     ((\<not> podRequestsResource pod r \<or> allocatable nodeInfo r \<noteq> 0) \<longrightarrow>
        (\<exists>score. ScarceResourceBinPackingPriorityMap r pod nodeInfo =
           Inr (\<lparr>Host = Name node, Score = score\<rparr>, None))) \<and>
     (podRequestsResource pod r \<and> allocatable nodeInfo r = 0 \<longrightarrow>
        ScarceResourceBinPackingPriorityMap r pod nodeInfo = Inl IntegerDivideByZero) \<and>
     (\<not> podRequestsResource pod [] \<longrightarrow>
        ScarceResourceBinPackingPriorityMap [] pod nodeInfo =
          Inr (\<lparr>Host = Name node, Score = 0\<rparr>, None))"
  using assms
  by (auto simp: ScarceResourceBinPackingPriorityMap_def calculate_scarce_eq goDiv_def
      split: sum.splits if_splits)

text \<open>
  Claim C10, witness: the pod requesting 2 units on \<open>machine1\<close>, scored 2 for
  \<open>intel.com/foo\<close> and 0 for the empty name, with no error.
\<close>

theorem scarce_scorer_never_returns_error_witness:
  "Node machine1 = Some \<lparr>Name = ''machine1''\<rparr> \<and>
   podRequestsResource scareResourcePod1 scarceResource \<and>
   allocatable machine1 scarceResource = 8 \<and>
   ScarceResourceBinPackingPriorityMap scarceResource scareResourcePod1 machine1 =
     Inr (\<lparr>Host = ''machine1'', Score = 2\<rparr>, None) \<and>
   ScarceResourceBinPackingPriorityMap [] scareResourcePod1 machine1 =
     Inr (\<lparr>Host = ''machine1'', Score = 0\<rparr>, None)"
proof -
  have n: "Node machine1 = Some \<lparr>Name = ''machine1''\<rparr>"
    by (simp add: scenario_defs scareResourcePod1_def machine1_def)
  have p: "podRequestsResource scareResourcePod1 scarceResource"
      "\<not> podRequestsResource scareResourcePod1 []"
    by (simp_all add: scenario_defs scareResourcePod1_def machine1_def podRequestsResource_def
        containerRequestsResource_def)
  have a: "allocatable machine1 scarceResource = 8"
    by (simp add: scenario_defs scareResourcePod1_def machine1_def allocatable_def mapIndex_def)
  have v: "ScarceResourceBinPackingPriorityMap scarceResource scareResourcePod1 machine1 =
     Inr (\<lparr>Host = ''machine1'', Score = 2\<rparr>, None)"
    by (simp add: scenario_defs scareResourcePod1_def machine1_def scorer_defs
        signed_divide_int_def)
  show ?thesis
    using scarce_scorer_never_returns_error [OF n, of scarceResource scareResourcePod1]
      scarce_scorer_never_returns_error [OF n, of "[]" scareResourcePod1] n p a v by simp
qed

end
